theory Spec2Isabelle
  imports Complex_Main
begin

section \<open>The data model of \<^verbatim>\<open>app/models.py\<close>\<close>

text \<open>
  The source file is a set of SQLModel class declarations: four enumerations, five
  persistent tables and nine non-persistent schemas. Every class is a list of typed
  fields, each with the keyword constraints of its \<^verbatim>\<open>Field(...)\<close> call. The embedding
  keeps that shape: a class is a list of \<open>field\<close> records, in the order of the source,
  and one generic function gives the constraints their meaning.
\<close>

subsection \<open>Enumerations\<close>

datatype UserRole = ADMIN | MANAGER | EXPERT

datatype ExpertStatus = ACTIVE | INACTIVE | PENDING | SUSPENDED

datatype CostCategory = MARKETING | OPERATIONS | TECHNOLOGY | SUPPORT | OTHER

datatype TransactionType = SALE | REFUND | ADJUSTMENT

fun UserRole_value :: "UserRole \<Rightarrow> string" where
  "UserRole_value ADMIN = ''admin''"
| "UserRole_value MANAGER = ''manager''"
| "UserRole_value EXPERT = ''expert''"

fun ExpertStatus_value :: "ExpertStatus \<Rightarrow> string" where
  "ExpertStatus_value ACTIVE = ''active''"
| "ExpertStatus_value INACTIVE = ''inactive''"
| "ExpertStatus_value PENDING = ''pending''"
| "ExpertStatus_value SUSPENDED = ''suspended''"

fun CostCategory_value :: "CostCategory \<Rightarrow> string" where
  "CostCategory_value MARKETING = ''marketing''"
| "CostCategory_value OPERATIONS = ''operations''"
| "CostCategory_value TECHNOLOGY = ''technology''"
| "CostCategory_value SUPPORT = ''support''"
| "CostCategory_value OTHER = ''other''"

fun TransactionType_value :: "TransactionType \<Rightarrow> string" where
  "TransactionType_value SALE = ''sale''"
| "TransactionType_value REFUND = ''refund''"
| "TransactionType_value ADJUSTMENT = ''adjustment''"

text \<open>A member of any of the four enumerations, and the enumeration it belongs to.\<close>

datatype enum_member =
  UserRole UserRole
| ExpertStatus ExpertStatus
| CostCategory CostCategory
| TransactionType TransactionType

datatype enum_kind = KUserRole | KExpertStatus | KCostCategory | KTransactionType

fun members :: "enum_kind \<Rightarrow> enum_member list" where
  "members KUserRole = map UserRole [ADMIN, MANAGER, EXPERT]"
| "members KExpertStatus = map ExpertStatus [ACTIVE, INACTIVE, PENDING, SUSPENDED]"
| "members KCostCategory = map CostCategory [MARKETING, OPERATIONS, TECHNOLOGY, SUPPORT, OTHER]"
| "members KTransactionType = map TransactionType [SALE, REFUND, ADJUSTMENT]"

fun member_value :: "enum_member \<Rightarrow> string" where
  "member_value (UserRole r) = UserRole_value r"
| "member_value (ExpertStatus s) = ExpertStatus_value s"
| "member_value (CostCategory c) = CostCategory_value c"
| "member_value (TransactionType t) = TransactionType_value t"

text \<open>\<^verbatim>\<open>UserRole("admin")\<close>: the member with the given value, if there is one.\<close>

definition enum_of_value :: "enum_kind \<Rightarrow> string \<Rightarrow> enum_member option" where
  "enum_of_value k s = find (\<lambda>m. member_value m = s) (members k)"

subsection \<open>Python's \<^verbatim>\<open>Decimal\<close>\<close>

text \<open>
  A finite \<^verbatim>\<open>Decimal\<close> is a sign, an unbounded non-negative coefficient and an integer
  exponent (\<^verbatim>\<open>Decimal.as_tuple()\<close>); its value is \<open>\<plusminus> coefficient * 10 ^ exponent\<close>, exactly.
  NaN and the infinities are the one remaining constructor. \<^verbatim>\<open>Decimal("50.0")\<close> is
  \<open>Dec False 500 (-1)\<close> and \<^verbatim>\<open>Decimal("62.50")\<close> is \<open>Dec False 6250 (-2)\<close>.
\<close>

datatype decimal = Dec (dec_sign: bool) (dec_coeff: nat) (dec_exp: int) | DecNonFinite

text \<open>The exact value of a decimal; Python compares decimals by value.\<close>

fun dec_val :: "decimal \<Rightarrow> rat" where
  "dec_val (Dec s c e) =
     (if s then - 1 else 1) * of_nat c * (if 0 \<le> e then 10 ^ nat e else 1 / 10 ^ nat (- e))"
| "dec_val DecNonFinite = 0"

text \<open>\<^verbatim>\<open>Decimal(i)\<close> for an integer \<open>i\<close>.\<close>

definition decimal_of_int :: "int \<Rightarrow> decimal" where
  "decimal_of_int i = Dec (i < 0) (nat \<bar>i\<bar>) 0"

text \<open>The number of digits of the coefficient: \<^verbatim>\<open>len(digit_tuple)\<close>, which is 1 for 0.\<close>

fun num_digits :: "nat \<Rightarrow> nat" where
  "num_digits n = (if n < 10 then 1 else Suc (num_digits (n div 10)))"

declare num_digits.simps [simp del]

text \<open>
  \<^verbatim>\<open>Decimal.normalize\<close>, which the digit check is made on, works in the arithmetic
  context: it first rounds the decimal to the precision of the context, 28 significant
  digits, half to even, and then moves the trailing zeroes of the coefficient into the
  exponent; zero becomes \<open>0E0\<close>. A coefficient of more than 28 digits loses its last
  digits there. (The exponent limits of the context, beyond \<open>\<plusminus> 999999\<close>, are left out.)
\<close>

definition context_prec :: nat where
  "context_prec = 28"

text \<open>The coefficient without its last \<open>k\<close> digits, rounded half to even.\<close>

definition round_half_even :: "nat \<Rightarrow> nat \<Rightarrow> nat" where
  "round_half_even c k =
     (let q = c div 10 ^ k; r = c mod 10 ^ k; h = 5 * 10 ^ (k - 1)
      in if h < r \<or> (r = h \<and> odd q) then q + 1 else q)"

text \<open>Rounding up can give one digit too many, a one and zeroes; the last zero is dropped.\<close>

definition round_to_prec :: "nat \<Rightarrow> int \<Rightarrow> nat \<times> int" where
  "round_to_prec c e =
     (if num_digits c \<le> context_prec then (c, e)
      else (let k = num_digits c - context_prec; q = round_half_even c k
            in if context_prec < num_digits q then (q div 10, e + int k + 1)
               else (q, e + int k)))"

fun strip_zeros :: "nat \<Rightarrow> int \<Rightarrow> nat \<times> int" where
  "strip_zeros c e =
     (if c \<noteq> 0 \<and> c mod 10 = 0 then strip_zeros (c div 10) (e + 1) else (c, e))"

declare strip_zeros.simps [simp del]

definition normalize_dec :: "nat \<Rightarrow> int \<Rightarrow> nat \<times> int" where
  "normalize_dec c e =
     (if c = 0 then (0, 0)
      else (case round_to_prec c e of (c', e') \<Rightarrow> strip_zeros c' e'))"

text \<open>
  The digit count and the number of decimal places of a normalized coefficient and
  exponent. A non-negative exponent adds that many trailing zeroes to the digits; a
  negative exponent larger than the number of digits stands for leading zeroes after
  the decimal point, which count as digits.
\<close>

definition digit_info :: "nat \<Rightarrow> int \<Rightarrow> nat \<times> nat" where
  "digit_info c e =
     (if 0 \<le> e then (num_digits c + nat e, 0)
      else (max (num_digits c) (nat (- e)), nat (- e)))"








subsection \<open>Regular expressions\<close>

text \<open>
  The \<^verbatim>\<open>regex=\<close> constraint holds a pattern. A pattern is a term over character classes
  (a class is a list of inclusive ranges; a literal is a one-character range), and
  matching is decided by taking the derivative of the pattern by each character in
  turn. \<open>re_match\<close> matches a whole string against the part of a pattern between its
  anchors \<^verbatim>\<open>^\<close> and \<^verbatim>\<open>$\<close>; \<open>py_match\<close> is the match of the anchored pattern as Python's
  \<^verbatim>\<open>re.match\<close> makes it, where \<^verbatim>\<open>$\<close> also matches just before a line feed that ends the
  string.
\<close>

datatype rx = RNone | REmpty | RClass "(char \<times> char) list" | RAlt rx rx | RSeq rx rx | RStar rx

definition in_class :: "char \<Rightarrow> (char \<times> char) list \<Rightarrow> bool" where
  "in_class c rs =
     list_ex (\<lambda>(lo, hi). (of_char lo :: nat) \<le> of_char c \<and> (of_char c :: nat) \<le> of_char hi) rs"

fun accepts_empty :: "rx \<Rightarrow> bool" where
  "accepts_empty RNone = False"
| "accepts_empty REmpty = True"
| "accepts_empty (RClass rs) = False"
| "accepts_empty (RAlt r s) = (accepts_empty r \<or> accepts_empty s)"
| "accepts_empty (RSeq r s) = (accepts_empty r \<and> accepts_empty s)"
| "accepts_empty (RStar r) = True"

fun after_char :: "char \<Rightarrow> rx \<Rightarrow> rx" where
  "after_char c RNone = RNone"
| "after_char c REmpty = RNone"
| "after_char c (RClass rs) = (if in_class c rs then REmpty else RNone)"
| "after_char c (RAlt r s) = RAlt (after_char c r) (after_char c s)"
| "after_char c (RSeq r s) =
     (if accepts_empty r then RAlt (RSeq (after_char c r) s) (after_char c s)
      else RSeq (after_char c r) s)"
| "after_char c (RStar r) = RSeq (after_char c r) (RStar r)"

fun re_match :: "rx \<Rightarrow> string \<Rightarrow> bool" where
  "re_match r [] = accepts_empty r"
| "re_match r (c # cs) = re_match (after_char c r) cs"

text \<open>
  What a pattern denotes, as a set of strings given by rules; \<open>re_match\<close> is shown
  below to decide it.
\<close>

inductive denotes :: "rx \<Rightarrow> string \<Rightarrow> bool" where
  d_empty: "denotes REmpty []"
| d_class: "in_class c rs \<Longrightarrow> denotes (RClass rs) [c]"
| d_left: "denotes r w \<Longrightarrow> denotes (RAlt r s) w"
| d_right: "denotes s w \<Longrightarrow> denotes (RAlt r s) w"
| d_seq: "denotes r u \<Longrightarrow> denotes s v \<Longrightarrow> denotes (RSeq r s) (u @ v)"
| d_stop: "denotes (RStar r) []"
| d_more: "denotes r u \<Longrightarrow> denotes (RStar r) v \<Longrightarrow> denotes (RStar r) (u @ v)"

text \<open>Every character of a string is in a class.\<close>

definition all_in :: "(char \<times> char) list \<Rightarrow> string \<Rightarrow> bool" where
  "all_in rs w = list_all (\<lambda>c. in_class c rs) w"

definition py_match :: "rx \<Rightarrow> string \<Rightarrow> bool" where
  "py_match r s =
     (re_match r s \<or> (s \<noteq> [] \<and> last s = CHR 0x0A \<and> re_match r (butlast s)))"

definition lit :: "char \<Rightarrow> rx" where
  "lit c = RClass [(c, c)]"

definition plus :: "rx \<Rightarrow> rx" where
  "plus r = RSeq r (RStar r)"

text \<open>
  The one pattern of the source, declared on \<^verbatim>\<open>User.email\<close>, \<^verbatim>\<open>UserCreate.email\<close> and
  \<^verbatim>\<open>ExpertCreate.email\<close>, without its anchors:
  \<^verbatim>\<open>^[a-zA-Z0-9_.+-]+@[a-zA-Z0-9-]+\.[a-zA-Z0-9-.]+$\<close>
\<close>

definition email_regex :: rx where
  "email_regex =
     RSeq (plus (RClass [(CHR ''a'', CHR ''z''), (CHR ''A'', CHR ''Z''), (CHR ''0'', CHR ''9''),
                         (CHR ''_'', CHR ''_''), (CHR ''.'', CHR ''.''), (CHR ''+'', CHR ''+''),
                         (CHR ''-'', CHR ''-'')]))
    (RSeq (lit (CHR ''@''))
    (RSeq (plus (RClass [(CHR ''a'', CHR ''z''), (CHR ''A'', CHR ''Z''), (CHR ''0'', CHR ''9''),
                         (CHR ''-'', CHR ''-'')]))
    (RSeq (lit (CHR ''.''))
          (plus (RClass [(CHR ''a'', CHR ''z''), (CHR ''A'', CHR ''Z''), (CHR ''0'', CHR ''9''),
                         (CHR ''-'', CHR ''-''), (CHR ''.'', CHR ''.'')])))))"

subsection \<open>Values and fields\<close>

text \<open>
  The values a field can hold: \<^verbatim>\<open>None\<close>, \<^verbatim>\<open>bool\<close>, \<^verbatim>\<open>int\<close>, \<^verbatim>\<open>str\<close>, \<^verbatim>\<open>Decimal\<close>, \<^verbatim>\<open>datetime\<close>
  (a point on the time line), an enumeration member, and a \<^verbatim>\<open>Dict[str, Any]\<close>.
\<close>

datatype pyval =
  VNone
| VBool bool
| VInt int
| VStr string
| VDecimal decimal
| VDatetime int
| VEnum enum_member
| VDict "(string \<times> pyval) list"

datatype ftype = TInt | TStr | TBool | TDecimal | TDatetime | TDict | TEnum enum_kind

text \<open>
  What a field has when the caller leaves it out: nothing (the field is required), a
  fixed default, or the clock (\<^verbatim>\<open>default_factory=datetime.utcnow\<close>).
\<close>

datatype fdefault = Required | Default pyval | DefaultUtcnow

record field =
  fname :: string
  ftype :: ftype
  nullable :: bool
  dflt :: fdefault
  min_length :: "nat option"
  max_length :: "nat option"
  regex :: "rx option"
  max_digits :: "nat option"
  decimal_places :: "nat option"
  primary_key :: bool
  unique :: bool
  foreign_key :: "(string \<times> string) option"

text \<open>
  \<open>fld n t\<close> is the annotation \<^verbatim>\<open>n: t\<close> with no \<^verbatim>\<open>Field\<close> keyword: required, not
  nullable, unconstrained. \<open>opt n t\<close> is \<^verbatim>\<open>n: Optional[t] = Field(default=None)\<close>.
\<close>

definition fld :: "string \<Rightarrow> ftype \<Rightarrow> field" where
  "fld n t = \<lparr>fname = n, ftype = t, nullable = False, dflt = Required,
              min_length = None, max_length = None, regex = None,
              max_digits = None, decimal_places = None,
              primary_key = False, unique = False, foreign_key = None\<rparr>"

definition opt :: "string \<Rightarrow> ftype \<Rightarrow> field" where
  "opt n t = (fld n t)\<lparr>nullable := True, dflt := Default VNone\<rparr>"

subsection \<open>Persistent models (\<^verbatim>\<open>table=True\<close>)\<close>

text \<open>
  The columns of the five tables. A table class does not validate the arguments it is
  built from: the keywords of its fields are declarations for the columns. The
  \<^verbatim>\<open>Relationship\<close> attributes are object navigation over the foreign keys, not columns;
  they and the object mapping they configure are outside this embedding, where a stored
  row is a row of column values.
\<close>

definition User_fields :: "field list" where
  "User_fields =
   [(opt ''id'' TInt)\<lparr>primary_key := True\<rparr>,
    (fld ''email'' TStr)\<lparr>unique := True, max_length := Some 255, regex := Some email_regex\<rparr>,
    (fld ''password_hash'' TStr)\<lparr>max_length := Some 255\<rparr>,
    (fld ''name'' TStr)\<lparr>max_length := Some 100\<rparr>,
    (fld ''role'' (TEnum KUserRole))\<lparr>dflt := Default (VEnum (UserRole EXPERT))\<rparr>,
    (fld ''is_active'' TBool)\<lparr>dflt := Default (VBool True)\<rparr>,
    (fld ''permissions'' TDict)\<lparr>dflt := Default (VDict [])\<rparr>,
    (fld ''created_at'' TDatetime)\<lparr>dflt := DefaultUtcnow\<rparr>,
    (fld ''updated_at'' TDatetime)\<lparr>dflt := DefaultUtcnow\<rparr>]"

definition Expert_fields :: "field list" where
  "Expert_fields =
   [(opt ''id'' TInt)\<lparr>primary_key := True\<rparr>,
    (fld ''business_name'' TStr)\<lparr>max_length := Some 200\<rparr>,
    (fld ''expert_name'' TStr)\<lparr>max_length := Some 100\<rparr>,
    (fld ''email'' TStr)\<lparr>max_length := Some 255\<rparr>,
    (opt ''phone'' TStr)\<lparr>max_length := Some 20\<rparr>,
    (fld ''status'' (TEnum KExpertStatus))\<lparr>dflt := Default (VEnum (ExpertStatus PENDING))\<rparr>,
    (fld ''partnership_start_date'' TDatetime)\<lparr>dflt := DefaultUtcnow\<rparr>,
    (fld ''revenue_split_percentage'' TDecimal)
      \<lparr>dflt := Default (VDecimal (Dec False 500 (- 1))), max_digits := Some 5,
       decimal_places := Some 2\<rparr>,
    (opt ''business_description'' TStr)\<lparr>max_length := Some 1000\<rparr>,
    (opt ''website'' TStr)\<lparr>max_length := Some 255\<rparr>,
    (fld ''social_media'' TDict)\<lparr>dflt := Default (VDict [])\<rparr>,
    (opt ''subdomain'' TStr)\<lparr>max_length := Some 50, unique := True\<rparr>,
    (fld ''branding_config'' TDict)\<lparr>dflt := Default (VDict [])\<rparr>,
    (opt ''owner_id'' TInt)\<lparr>foreign_key := Some (''users'', ''id'')\<rparr>,
    (fld ''created_by_id'' TInt)\<lparr>foreign_key := Some (''users'', ''id'')\<rparr>,
    (fld ''created_at'' TDatetime)\<lparr>dflt := DefaultUtcnow\<rparr>,
    (fld ''updated_at'' TDatetime)\<lparr>dflt := DefaultUtcnow\<rparr>]"

definition Sale_fields :: "field list" where
  "Sale_fields =
   [(opt ''id'' TInt)\<lparr>primary_key := True\<rparr>,
    (fld ''expert_id'' TInt)\<lparr>foreign_key := Some (''experts'', ''id'')\<rparr>,
    (fld ''transaction_type'' (TEnum KTransactionType))
      \<lparr>dflt := Default (VEnum (TransactionType SALE))\<rparr>,
    (fld ''gross_amount'' TDecimal)\<lparr>max_digits := Some 12, decimal_places := Some 2\<rparr>,
    (fld ''net_amount'' TDecimal)\<lparr>max_digits := Some 12, decimal_places := Some 2\<rparr>,
    (opt ''product_name'' TStr)\<lparr>max_length := Some 200\<rparr>,
    (opt ''product_category'' TStr)\<lparr>max_length := Some 100\<rparr>,
    (fld ''quantity'' TInt)\<lparr>dflt := Default (VInt 1)\<rparr>,
    (opt ''customer_id'' TStr)\<lparr>max_length := Some 100\<rparr>,
    (opt ''customer_country'' TStr)\<lparr>max_length := Some 3\<rparr>,
    (fld ''sale_date'' TDatetime)\<lparr>dflt := DefaultUtcnow\<rparr>,
    (fld ''created_at'' TDatetime)\<lparr>dflt := DefaultUtcnow\<rparr>]"

definition OperationalCost_fields :: "field list" where
  "OperationalCost_fields =
   [(opt ''id'' TInt)\<lparr>primary_key := True\<rparr>,
    (fld ''expert_id'' TInt)\<lparr>foreign_key := Some (''experts'', ''id'')\<rparr>,
    (fld ''created_by_id'' TInt)\<lparr>foreign_key := Some (''users'', ''id'')\<rparr>,
    fld ''category'' (TEnum KCostCategory),
    (fld ''description'' TStr)\<lparr>max_length := Some 500\<rparr>,
    (fld ''amount'' TDecimal)\<lparr>max_digits := Some 12, decimal_places := Some 2\<rparr>,
    (fld ''cost_date'' TDatetime)\<lparr>dflt := DefaultUtcnow\<rparr>,
    (fld ''is_recurring'' TBool)\<lparr>dflt := Default (VBool False)\<rparr>,
    (opt ''recurring_frequency'' TStr)\<lparr>max_length := Some 20\<rparr>,
    (opt ''external_reference'' TStr)\<lparr>max_length := Some 100\<rparr>,
    (opt ''notes'' TStr)\<lparr>max_length := Some 1000\<rparr>,
    (fld ''created_at'' TDatetime)\<lparr>dflt := DefaultUtcnow\<rparr>,
    (fld ''updated_at'' TDatetime)\<lparr>dflt := DefaultUtcnow\<rparr>]"

definition FinancialReport_fields :: "field list" where
  "FinancialReport_fields =
   [(opt ''id'' TInt)\<lparr>primary_key := True\<rparr>,
    (fld ''expert_id'' TInt)\<lparr>foreign_key := Some (''experts'', ''id'')\<rparr>,
    fld ''period_start'' TDatetime,
    fld ''period_end'' TDatetime,
    (fld ''report_type'' TStr)\<lparr>max_length := Some 50\<rparr>,
    (fld ''gross_revenue'' TDecimal)\<lparr>max_digits := Some 15, decimal_places := Some 2\<rparr>,
    (fld ''total_costs'' TDecimal)\<lparr>max_digits := Some 15, decimal_places := Some 2\<rparr>,
    (fld ''net_profit'' TDecimal)\<lparr>max_digits := Some 15, decimal_places := Some 2\<rparr>,
    (fld ''og_share'' TDecimal)\<lparr>max_digits := Some 15, decimal_places := Some 2\<rparr>,
    (fld ''expert_share'' TDecimal)\<lparr>max_digits := Some 15, decimal_places := Some 2\<rparr>,
    (fld ''total_sales_count'' TInt)\<lparr>dflt := Default (VInt 0)\<rparr>,
    (fld ''average_sale_value'' TDecimal)
      \<lparr>dflt := Default (VDecimal (Dec False 0 (- 2))), max_digits := Some 12,
       decimal_places := Some 2\<rparr>,
    (fld ''cost_breakdown'' TDict)\<lparr>dflt := Default (VDict [])\<rparr>,
    (fld ''generated_at'' TDatetime)\<lparr>dflt := DefaultUtcnow\<rparr>,
    (fld ''is_finalized'' TBool)\<lparr>dflt := Default (VBool False)\<rparr>]"

subsection \<open>Non-persistent schemas (\<^verbatim>\<open>table=False\<close>)\<close>

definition UserCreate_fields :: "field list" where
  "UserCreate_fields =
   [(fld ''email'' TStr)\<lparr>max_length := Some 255, regex := Some email_regex\<rparr>,
    (fld ''password'' TStr)\<lparr>min_length := Some 8, max_length := Some 100\<rparr>,
    (fld ''name'' TStr)\<lparr>max_length := Some 100\<rparr>,
    (fld ''role'' (TEnum KUserRole))\<lparr>dflt := Default (VEnum (UserRole EXPERT))\<rparr>,
    (fld ''permissions'' TDict)\<lparr>dflt := Default (VDict [])\<rparr>]"

definition UserUpdate_fields :: "field list" where
  "UserUpdate_fields =
   [(opt ''name'' TStr)\<lparr>max_length := Some 100\<rparr>,
    opt ''role'' (TEnum KUserRole),
    opt ''is_active'' TBool,
    opt ''permissions'' TDict]"

definition ExpertCreate_fields :: "field list" where
  "ExpertCreate_fields =
   [(fld ''business_name'' TStr)\<lparr>max_length := Some 200\<rparr>,
    (fld ''expert_name'' TStr)\<lparr>max_length := Some 100\<rparr>,
    (fld ''email'' TStr)\<lparr>max_length := Some 255, regex := Some email_regex\<rparr>,
    (opt ''phone'' TStr)\<lparr>max_length := Some 20\<rparr>,
    (opt ''business_description'' TStr)\<lparr>max_length := Some 1000\<rparr>,
    (opt ''website'' TStr)\<lparr>max_length := Some 255\<rparr>,
    (fld ''revenue_split_percentage'' TDecimal)
      \<lparr>dflt := Default (VDecimal (Dec False 500 (- 1))), max_digits := Some 5,
       decimal_places := Some 2\<rparr>,
    (opt ''subdomain'' TStr)\<lparr>max_length := Some 50\<rparr>]"

definition ExpertUpdate_fields :: "field list" where
  "ExpertUpdate_fields =
   [(opt ''business_name'' TStr)\<lparr>max_length := Some 200\<rparr>,
    (opt ''expert_name'' TStr)\<lparr>max_length := Some 100\<rparr>,
    (opt ''email'' TStr)\<lparr>max_length := Some 255\<rparr>,
    (opt ''phone'' TStr)\<lparr>max_length := Some 20\<rparr>,
    opt ''status'' (TEnum KExpertStatus),
    (opt ''business_description'' TStr)\<lparr>max_length := Some 1000\<rparr>,
    (opt ''website'' TStr)\<lparr>max_length := Some 255\<rparr>,
    (opt ''revenue_split_percentage'' TDecimal)\<lparr>max_digits := Some 5, decimal_places := Some 2\<rparr>,
    opt ''branding_config'' TDict]"

definition SaleCreate_fields :: "field list" where
  "SaleCreate_fields =
   [fld ''expert_id'' TInt,
    (fld ''transaction_type'' (TEnum KTransactionType))
      \<lparr>dflt := Default (VEnum (TransactionType SALE))\<rparr>,
    (fld ''gross_amount'' TDecimal)\<lparr>max_digits := Some 12, decimal_places := Some 2\<rparr>,
    (fld ''net_amount'' TDecimal)\<lparr>max_digits := Some 12, decimal_places := Some 2\<rparr>,
    (opt ''product_name'' TStr)\<lparr>max_length := Some 200\<rparr>,
    (opt ''product_category'' TStr)\<lparr>max_length := Some 100\<rparr>,
    (fld ''quantity'' TInt)\<lparr>dflt := Default (VInt 1)\<rparr>,
    (opt ''customer_id'' TStr)\<lparr>max_length := Some 100\<rparr>,
    (opt ''customer_country'' TStr)\<lparr>max_length := Some 3\<rparr>,
    opt ''sale_date'' TDatetime]"

definition OperationalCostCreate_fields :: "field list" where
  "OperationalCostCreate_fields =
   [fld ''expert_id'' TInt,
    fld ''category'' (TEnum KCostCategory),
    (fld ''description'' TStr)\<lparr>max_length := Some 500\<rparr>,
    (fld ''amount'' TDecimal)\<lparr>max_digits := Some 12, decimal_places := Some 2\<rparr>,
    opt ''cost_date'' TDatetime,
    (fld ''is_recurring'' TBool)\<lparr>dflt := Default (VBool False)\<rparr>,
    (opt ''recurring_frequency'' TStr)\<lparr>max_length := Some 20\<rparr>,
    (opt ''external_reference'' TStr)\<lparr>max_length := Some 100\<rparr>,
    (opt ''notes'' TStr)\<lparr>max_length := Some 1000\<rparr>]"

definition OperationalCostUpdate_fields :: "field list" where
  "OperationalCostUpdate_fields =
   [opt ''category'' (TEnum KCostCategory),
    (opt ''description'' TStr)\<lparr>max_length := Some 500\<rparr>,
    (opt ''amount'' TDecimal)\<lparr>max_digits := Some 12, decimal_places := Some 2\<rparr>,
    opt ''cost_date'' TDatetime,
    opt ''is_recurring'' TBool,
    (opt ''recurring_frequency'' TStr)\<lparr>max_length := Some 20\<rparr>,
    (opt ''external_reference'' TStr)\<lparr>max_length := Some 100\<rparr>,
    (opt ''notes'' TStr)\<lparr>max_length := Some 1000\<rparr>]"

definition FinancialSummary_fields :: "field list" where
  "FinancialSummary_fields =
   [fld ''total_experts'' TInt,
    fld ''active_experts'' TInt,
    fld ''total_gross_revenue'' TDecimal,
    fld ''total_og_share'' TDecimal,
    fld ''total_expert_share'' TDecimal,
    fld ''period_start'' TDatetime,
    fld ''period_end'' TDatetime]"

definition ExpertFinancialSummary_fields :: "field list" where
  "ExpertFinancialSummary_fields =
   [fld ''expert_id'' TInt,
    fld ''expert_name'' TStr,
    fld ''business_name'' TStr,
    fld ''gross_revenue'' TDecimal,
    fld ''total_costs'' TDecimal,
    fld ''net_profit'' TDecimal,
    fld ''og_share'' TDecimal,
    fld ''expert_share'' TDecimal,
    fld ''sales_count'' TInt,
    fld ''average_sale_value'' TDecimal,
    fld ''period_start'' TDatetime,
    fld ''period_end'' TDatetime]"

text \<open>The table each persistent model is stored in (\<^verbatim>\<open>__tablename__\<close>).\<close>

definition tables :: "(string \<times> field list) list" where
  "tables =
   [(''users'', User_fields),
    (''experts'', Expert_fields),
    (''sales'', Sale_fields),
    (''operational_costs'', OperationalCost_fields),
    (''financial_reports'', FinancialReport_fields)]"

subsection \<open>Validation\<close>

text \<open>
  What the \<^verbatim>\<open>Field\<close> keywords do when a non-persistent schema is built from keyword
  arguments. A field's check yields the validated value or the one constraint that
  failed first.
  \<^item> \<^verbatim>\<open>min_length\<close>, \<^verbatim>\<open>max_length\<close>: bounds on the number of characters of a string;
  \<^item> \<^verbatim>\<open>regex\<close>: the keyword is passed on to the field description of the validating
    base class, which knows the constraint under the name \<^verbatim>\<open>pattern\<close> only and drops
    what it does not know. The pattern stays in the declaration and no string is ever
    matched against it;
  \<^item> \<^verbatim>\<open>max_digits\<close>: the number of digits of the normalized decimal, not counting a
    zero before the decimal point;
  \<^item> \<^verbatim>\<open>decimal_places\<close>: the number of decimal places of the normalized decimal;
    with both keywords, the digits before the decimal point are at most
    \<^verbatim>\<open>max_digits - decimal_places\<close>;
  \<^item> a decimal field must be finite, and takes an \<^verbatim>\<open>int\<close> as the decimal of that value;
  \<^item> an enumeration field takes a member, or the string value of one;
  \<^item> \<^verbatim>\<open>None\<close> is a value of \<^verbatim>\<open>Optional\<close> fields only;
  \<^item> a field the payload leaves out takes its default, unvalidated, and is an error
    when it has none.
  A \<open>char\<close> stands for one character of a Python \<^verbatim>\<open>str\<close>. The arguments covered are
  values of the annotated type (and the two conversions above); the parsing of a
  string or a float given for a field of another type is left out, and such an
  argument is a type error here.
\<close>

datatype constraint =
  missing
| none_not_allowed
| type_error
| string_too_short nat
| string_too_long nat
| decimal_not_finite
| decimal_max_digits nat
| decimal_max_places nat
| decimal_whole_digits nat
| enum_error

text \<open>The error kinds of the layer and of its two collaborators.\<close>

datatype error =
  ValidationError "(string \<times> constraint) list"
| UniquenessConflict string
| ReferentialIntegrityError string
| NotFoundError

text \<open>The two checks of a string, in the order they are made.\<close>

definition too_short :: "field \<Rightarrow> string \<Rightarrow> constraint option" where
  "too_short f s =
     (case min_length f of
        Some n \<Rightarrow> if length s < n then Some (string_too_short n) else None
      | None \<Rightarrow> None)"

definition too_long :: "field \<Rightarrow> string \<Rightarrow> constraint option" where
  "too_long f s =
     (case max_length f of
        Some m \<Rightarrow> if m < length s then Some (string_too_long m) else None
      | None \<Rightarrow> None)"

definition check_str :: "field \<Rightarrow> string \<Rightarrow> constraint + pyval" where
  "check_str f s =
     (case too_short f s of Some e \<Rightarrow> Inl e | None \<Rightarrow>
      (case too_long f s of Some e \<Rightarrow> Inl e | None \<Rightarrow> Inr (VStr s)))"

text \<open>The three checks of a decimal, on its digit count and decimal places.\<close>

definition over_digits :: "field \<Rightarrow> nat \<Rightarrow> constraint option" where
  "over_digits f digits =
     (case max_digits f of
        Some m \<Rightarrow> if m < digits then Some (decimal_max_digits m) else None
      | None \<Rightarrow> None)"

definition over_places :: "field \<Rightarrow> nat \<Rightarrow> constraint option" where
  "over_places f decimals =
     (case decimal_places f of
        Some p \<Rightarrow> if p < decimals then Some (decimal_max_places p) else None
      | None \<Rightarrow> None)"

definition over_whole :: "field \<Rightarrow> nat \<Rightarrow> nat \<Rightarrow> constraint option" where
  "over_whole f digits decimals =
     (case max_digits f of
        Some m \<Rightarrow>
          (case decimal_places f of
             Some p \<Rightarrow>
               if m - p < digits - decimals then Some (decimal_whole_digits (m - p)) else None
           | None \<Rightarrow> None)
      | None \<Rightarrow> None)"

text \<open>The validated decimal is the one given: it is not rounded or normalized.\<close>

definition check_decimal :: "field \<Rightarrow> decimal \<Rightarrow> constraint + pyval" where
  "check_decimal f d =
     (case d of
        DecNonFinite \<Rightarrow> Inl decimal_not_finite
      | Dec s c e \<Rightarrow>
          (case normalize_dec c e of (c', e') \<Rightarrow>
           (case digit_info c' e' of (digits, decimals) \<Rightarrow>
            (case over_digits f digits of Some err \<Rightarrow> Inl err | None \<Rightarrow>
             (case over_places f decimals of Some err \<Rightarrow> Inl err | None \<Rightarrow>
              (case over_whole f digits decimals of Some err \<Rightarrow> Inl err | None \<Rightarrow>
                 Inr (VDecimal d)))))))"

fun member_kind :: "enum_member \<Rightarrow> enum_kind" where
  "member_kind (UserRole r) = KUserRole"
| "member_kind (ExpertStatus s) = KExpertStatus"
| "member_kind (CostCategory c) = KCostCategory"
| "member_kind (TransactionType t) = KTransactionType"

definition check_enum :: "enum_kind \<Rightarrow> pyval \<Rightarrow> constraint + pyval" where
  "check_enum k v =
     (case v of
        VEnum m \<Rightarrow> if member_kind m = k then Inr (VEnum m) else Inl enum_error
      | VStr s \<Rightarrow> (case enum_of_value k s of Some m \<Rightarrow> Inr (VEnum m) | None \<Rightarrow> Inl enum_error)
      | _ \<Rightarrow> Inl enum_error)"

text \<open>A value other than \<^verbatim>\<open>None\<close> against the field's type and constraints.\<close>

definition check_value :: "field \<Rightarrow> pyval \<Rightarrow> constraint + pyval" where
  "check_value f v =
     (case ftype f of
        TInt \<Rightarrow> (case v of VInt i \<Rightarrow> Inr (VInt i) | _ \<Rightarrow> Inl type_error)
      | TStr \<Rightarrow> (case v of VStr s \<Rightarrow> check_str f s | _ \<Rightarrow> Inl type_error)
      | TBool \<Rightarrow> (case v of VBool b \<Rightarrow> Inr (VBool b) | _ \<Rightarrow> Inl type_error)
      | TDecimal \<Rightarrow>
          (case v of
             VDecimal d \<Rightarrow> check_decimal f d
           | VInt i \<Rightarrow> check_decimal f (decimal_of_int i)
           | _ \<Rightarrow> Inl type_error)
      | TDatetime \<Rightarrow> (case v of VDatetime t \<Rightarrow> Inr (VDatetime t) | _ \<Rightarrow> Inl type_error)
      | TDict \<Rightarrow> (case v of VDict kvs \<Rightarrow> Inr (VDict kvs) | _ \<Rightarrow> Inl type_error)
      | TEnum k \<Rightarrow> check_enum k v)"

text \<open>
  One field of a payload: \<open>None\<close> is a key the payload does not have, \<open>now\<close> is the
  clock read by \<^verbatim>\<open>datetime.utcnow\<close>.
\<close>

definition check_field :: "int \<Rightarrow> field \<Rightarrow> pyval option \<Rightarrow> constraint + pyval" where
  "check_field now f ov =
     (case ov of
        None \<Rightarrow>
          (case dflt f of
             Required \<Rightarrow> Inl missing
           | Default v \<Rightarrow> Inr v
           | DefaultUtcnow \<Rightarrow> Inr (VDatetime now))
      | Some VNone \<Rightarrow> if nullable f then Inr VNone else Inl none_not_allowed
      | Some v \<Rightarrow> check_value f v)"

text \<open>
  A payload is the keyword arguments of the constructor call; a model instance is its
  validated fields. Every field is checked and all errors are reported together; keys
  that are not fields of the schema are ignored.
\<close>

type_synonym payload = "string \<rightharpoonup> pyval"

type_synonym row = "string \<rightharpoonup> pyval"

fun validate_fields ::
  "int \<Rightarrow> field list \<Rightarrow> payload \<Rightarrow> (string \<times> constraint) list \<times> (string \<times> pyval) list" where
  "validate_fields now [] p = ([], [])"
| "validate_fields now (f # fs) p =
     (case validate_fields now fs p of (es, vs) \<Rightarrow>
      (case check_field now f (p (fname f)) of
         Inl e \<Rightarrow> ((fname f, e) # es, vs)
       | Inr v \<Rightarrow> (es, (fname f, v) # vs)))"

definition validate :: "int \<Rightarrow> field list \<Rightarrow> payload \<Rightarrow> error + row" where
  "validate now fs p =
     (case validate_fields now fs p of
        ([], vs) \<Rightarrow> Inr (map_of vs)
      | (e # es, vs) \<Rightarrow> Inl (ValidationError (e # es)))"

text \<open>The declaration of a field of a class, by name.\<close>

definition field_of :: "field list \<Rightarrow> string \<Rightarrow> field option" where
  "field_of fs n = find (\<lambda>f. fname f = n) fs"



subsection \<open>The storage engine\<close>

text \<open>
  Modelled from the spec: the storage engine that persists the rows is not part of the
  source, which only declares \<^verbatim>\<open>unique=True\<close>, \<^verbatim>\<open>primary_key=True\<close> and
  \<^verbatim>\<open>foreign_key=...\<close> on the fields. The spec gives the engine's contract: it "persists
  rows, enforcing uniqueness (email, subdomain) and foreign-key referential
  integrity", a duplicate is a \<^verbatim>\<open>UniquenessConflict\<close>, a missing target of a foreign key a
  \<^verbatim>\<open>ReferentialIntegrityError\<close>, and the id is server-managed. A database is the rows of
  each table; a failed insert leaves it as it was. \<^verbatim>\<open>None\<close> in a unique or foreign-key
  column is no value and conflicts with nothing.
\<close>

type_synonym db = "string \<Rightarrow> row list"

definition holds :: "row list \<Rightarrow> string \<Rightarrow> pyval \<Rightarrow> bool" where
  "holds rows col v = list_ex (\<lambda>r. r col = Some v) rows"

definition unique_violation :: "field list \<Rightarrow> row list \<Rightarrow> row \<Rightarrow> field option" where
  "unique_violation fs rows r =
     find (\<lambda>f. unique f \<and>
                (case r (fname f) of
                   None \<Rightarrow> False
                 | Some v \<Rightarrow> v \<noteq> VNone \<and> holds rows (fname f) v)) fs"

definition foreign_key_violation :: "db \<Rightarrow> field list \<Rightarrow> row \<Rightarrow> field option" where
  "foreign_key_violation d fs r =
     find (\<lambda>f. case foreign_key f of
                  None \<Rightarrow> False
                | Some (t, col) \<Rightarrow>
                    (case r (fname f) of
                       None \<Rightarrow> False
                     | Some v \<Rightarrow> v \<noteq> VNone \<and> \<not> holds (d t) col v)) fs"

definition next_id :: "row list \<Rightarrow> int" where
  "next_id rows =
     1 + fold (\<lambda>r m. case r ''id'' of Some (VInt i) \<Rightarrow> max i m | _ \<Rightarrow> m) rows 0"

definition insert_row :: "string \<times> field list \<Rightarrow> row \<Rightarrow> db \<Rightarrow> (error + row) \<times> db" where
  "insert_row tbl r d =
     (case tbl of (t, fs) \<Rightarrow>
      (case unique_violation fs (d t) r of
         Some f \<Rightarrow> (Inl (UniquenessConflict (fname f)), d)
       | None \<Rightarrow>
          (case foreign_key_violation d fs r of
             Some f \<Rightarrow> (Inl (ReferentialIntegrityError (fname f)), d)
           | None \<Rightarrow>
               (let r' = r(''id'' \<mapsto> VInt (next_id (d t)))
                in (Inr r', d(t := d t @ [r']))))))"

definition create_user :: "row \<Rightarrow> db \<Rightarrow> (error + row) \<times> db" where
  "create_user = insert_row (''users'', User_fields)"

definition create_expert :: "row \<Rightarrow> db \<Rightarrow> (error + row) \<times> db" where
  "create_expert = insert_row (''experts'', Expert_fields)"

subsection \<open>Partial patches\<close>

text \<open>
  Modelled from the spec: the code that applies an \<^verbatim>\<open>*Update\<close> schema to a stored entity
  is not part of the source, which only declares the schemas with every field
  optional. The spec gives the rule: "only fields present are applied; omitted fields
  are untouched", where a field set to an explicit \<^verbatim>\<open>None\<close> is present. The fields set
  are the keys of the payload that are fields of the schema; the patch is validated
  first and nothing is applied when it is invalid.
\<close>

definition fields_set :: "field list \<Rightarrow> payload \<Rightarrow> string list" where
  "fields_set fs p = filter (\<lambda>k. p k \<noteq> None) (map fname fs)"

definition apply_update :: "int \<Rightarrow> field list \<Rightarrow> payload \<Rightarrow> row \<Rightarrow> error + row" where
  "apply_update now fs p r =
     (case validate now fs p of
        Inl e \<Rightarrow> Inl e
      | Inr m \<Rightarrow> Inr (\<lambda>k. if k \<in> set (fields_set fs p) then m k else r k))"

subsection \<open>The report generator\<close>


subsection \<open>Example values\<close>

text \<open>Payloads for \<^verbatim>\<open>UserCreate\<close>: a valid one, and the same with another email or password.\<close>

definition alice :: payload where
  "alice = [''email'' \<mapsto> VStr ''alice@example.com'', ''password'' \<mapsto> VStr ''correct horse'',
            ''name'' \<mapsto> VStr ''Alice'']"

definition mallory :: payload where
  "mallory = alice(''email'' \<mapsto> VStr ''alice.example.com'')"

definition short_password :: payload where
  "short_password = alice(''password'' \<mapsto> VStr ''secret7'')"

definition long_password :: payload where
  "long_password = alice(''password'' \<mapsto> VStr (replicate 101 (CHR ''x'')))"

text \<open>
  Payloads for \<^verbatim>\<open>ExpertCreate\<close> and \<^verbatim>\<open>ExpertUpdate\<close>: one that leaves the split out, and
  splits of 150.00 and -5.00.
\<close>

definition acme :: payload where
  "acme = [''business_name'' \<mapsto> VStr ''Acme Ltd'', ''expert_name'' \<mapsto> VStr ''Ann'',
           ''email'' \<mapsto> VStr ''ann@acme.io'']"

definition split_150 :: payload where
  "split_150 = acme(''revenue_split_percentage'' \<mapsto> VDecimal (Dec False 15000 (- 2)))"

definition split_negative :: payload where
  "split_negative = acme(''revenue_split_percentage'' \<mapsto> VDecimal (Dec True 500 (- 2)))"

definition patch_150 :: payload where
  "patch_150 = [''revenue_split_percentage'' \<mapsto> VDecimal (Dec False 15000 (- 2))]"

definition patch_negative :: payload where
  "patch_negative = [''revenue_split_percentage'' \<mapsto> VDecimal (Dec True 500 (- 2))]"

definition patch_email :: payload where
  "patch_email = [''email'' \<mapsto> VStr ''not-an-email'']"

text \<open>
  \<^verbatim>\<open>Decimal("123.45")\<close>, with five digits and two decimal places, and
  \<^verbatim>\<open>Decimal("62.5000000000000000000000000001")\<close>, with thirty digits and twenty-eight
  decimal places.
\<close>

definition split_12345 :: payload where
  "split_12345 = acme(''revenue_split_percentage'' \<mapsto> VDecimal (Dec False 12345 (- 2)))"

definition long_split :: decimal where
  "long_split = Dec False 625000000000000000000000000001 (- 28)"

definition split_long :: payload where
  "split_long = acme(''revenue_split_percentage'' \<mapsto> VDecimal long_split)"

text \<open>
  Rows and a database for the storage engine: one user and one expert are stored; a
  second user has the first one's email, a second expert the first one's subdomain.
\<close>

definition alice_row :: row where
  "alice_row = [''email'' \<mapsto> VStr ''alice@example.com'', ''password_hash'' \<mapsto> VStr ''$2b$12$abc'',
                ''name'' \<mapsto> VStr ''Alice'', ''role'' \<mapsto> VEnum (UserRole ADMIN)]"

definition alice_again :: row where
  "alice_again = [''email'' \<mapsto> VStr ''alice@example.com'', ''password_hash'' \<mapsto> VStr ''$2b$12$xyz'',
                  ''name'' \<mapsto> VStr ''Alice B'']"

definition acme_row :: row where
  "acme_row = [''business_name'' \<mapsto> VStr ''Acme Ltd'', ''expert_name'' \<mapsto> VStr ''Ann'',
               ''email'' \<mapsto> VStr ''ann@acme.io'', ''subdomain'' \<mapsto> VStr ''acme'',
               ''created_by_id'' \<mapsto> VInt 1]"

definition acme_again :: row where
  "acme_again = [''business_name'' \<mapsto> VStr ''Acme Two'', ''expert_name'' \<mapsto> VStr ''Bob'',
                 ''email'' \<mapsto> VStr ''bob@acme.io'', ''subdomain'' \<mapsto> VStr ''acme'',
                 ''created_by_id'' \<mapsto> VInt 1]"

definition empty_db :: db where
  "empty_db = (\<lambda>t. [])"

definition db1 :: db where
  "db1 = snd (create_expert acme_row (snd (create_user alice_row empty_db)))"

text \<open>A stored operational cost, and a patch that sets its amount only.\<close>

definition hosting_cost :: row where
  "hosting_cost = [''id'' \<mapsto> VInt 7, ''expert_id'' \<mapsto> VInt 1, ''created_by_id'' \<mapsto> VInt 1,
     ''category'' \<mapsto> VEnum (CostCategory TECHNOLOGY), ''description'' \<mapsto> VStr ''Hosting'',
     ''amount'' \<mapsto> VDecimal (Dec False 10000 (- 2)), ''cost_date'' \<mapsto> VDatetime 5,
     ''is_recurring'' \<mapsto> VBool True, ''recurring_frequency'' \<mapsto> VStr ''monthly'',
     ''external_reference'' \<mapsto> VNone, ''notes'' \<mapsto> VNone,
     ''created_at'' \<mapsto> VDatetime 5, ''updated_at'' \<mapsto> VDatetime 5]"

definition patch_amount :: payload where
  "patch_amount = [''amount'' \<mapsto> VDecimal (Dec False 25050 (- 2))]"






section \<open>Properties\<close>

subsection \<open>Matching decides the language of a pattern\<close>

inductive_cases d_noneE: "denotes RNone w"
inductive_cases d_emptyE: "denotes REmpty w"
inductive_cases d_classE: "denotes (RClass rs) w"
inductive_cases d_altE: "denotes (RAlt r s) w"
inductive_cases d_seqE: "denotes (RSeq r s) w"

lemma accepts_empty_denotes: "accepts_empty r \<longleftrightarrow> denotes r []"
proof (induction r)
  case RNone
  show ?case by (auto elim: d_noneE)
next
  case REmpty
  show ?case by (auto intro: d_empty)
next
  case (RClass rs)
  show ?case by (auto elim: d_classE)
next
  case (RAlt r s)
  then show ?case by (auto intro: d_left d_right elim: d_altE)
next
  case (RSeq r s)
  show ?case
  proof
    assume "accepts_empty (RSeq r s)"
    with RSeq have "denotes r []" "denotes s []" by simp_all
    from d_seq [OF this] show "denotes (RSeq r s) []" by simp
  next
    assume "denotes (RSeq r s) []"
    then show "accepts_empty (RSeq r s)" using RSeq by (auto elim: d_seqE)
  qed
next
  case (RStar r)
  show ?case by (simp add: d_stop)
qed

lemma after_char_sound: "denotes (after_char c r) w \<Longrightarrow> denotes r (c # w)"
proof (induction r arbitrary: w)
  case RNone
  then show ?case by (auto elim: d_noneE)
next
  case REmpty
  then show ?case by (auto elim: d_noneE)
next
  case (RClass rs)
  then show ?case by (auto elim: d_noneE d_emptyE intro: d_class split: if_splits)
next
  case (RAlt r s)
  then show ?case by (auto elim!: d_altE intro: d_left d_right)
next
  case (RSeq r s)
  show ?case
  proof (cases "accepts_empty r")
    case True
    with RSeq.prems have "denotes (RSeq (after_char c r) s) w \<or> denotes (after_char c s) w"
      by (auto elim: d_altE)
    then show ?thesis
    proof
      assume "denotes (RSeq (after_char c r) s) w"
      then obtain u v where "w = u @ v" "denotes (after_char c r) u" "denotes s v"
        by (auto elim: d_seqE)
      with RSeq.IH(1) d_seq [of r "c # u" s v] show ?thesis by simp
    next
      assume "denotes (after_char c s) w"
      with RSeq.IH(2) have "denotes s (c # w)" by simp
      moreover from True have "denotes r []" by (simp add: accepts_empty_denotes)
      ultimately show ?thesis using d_seq [of r "[]" s "c # w"] by simp
    qed
  next
    case False
    with RSeq.prems obtain u v where "w = u @ v" "denotes (after_char c r) u" "denotes s v"
      by (auto elim: d_seqE)
    with RSeq.IH(1) d_seq [of r "c # u" s v] show ?thesis by simp
  qed
next
  case (RStar r)
  then obtain u v where "w = u @ v" "denotes (after_char c r) u" "denotes (RStar r) v"
    by (auto elim: d_seqE)
  with RStar.IH d_more [of r "c # u" v] show ?case by simp
qed

lemma after_char_complete: "denotes r x \<Longrightarrow> x = c # w \<Longrightarrow> denotes (after_char c r) w"
proof (induction r x arbitrary: w rule: denotes.induct)
  case d_empty
  then show ?case by simp
next
  case (d_class c' rs)
  then show ?case by (auto intro: d_empty)
next
  case (d_left r w' s)
  then show ?case by (auto intro: denotes.d_left)
next
  case (d_right s w' r)
  then show ?case by (auto intro: denotes.d_right)
next
  case (d_seq r u s v)
  show ?case
  proof (cases u)
    case Nil
    with d_seq.prems have "v = c # w" by simp
    with d_seq.IH(2) have "denotes (after_char c s) w" by simp
    moreover from Nil d_seq.hyps(1) have "accepts_empty r" by (simp add: accepts_empty_denotes)
    ultimately show ?thesis by (auto intro: denotes.d_right)
  next
    case (Cons a u')
    with d_seq.prems have "a = c" "w = u' @ v" by simp_all
    with Cons d_seq.IH(1) have "denotes (after_char c r) u'" by simp
    with d_seq.hyps(2) \<open>w = u' @ v\<close> have "denotes (RSeq (after_char c r) s) w"
      by (auto intro: denotes.d_seq)
    then show ?thesis by (auto intro: denotes.d_left)
  qed
next
  case (d_stop r)
  then show ?case by simp
next
  case (d_more r u v)
  show ?case
  proof (cases u)
    case Nil
    with d_more.prems d_more.IH(2) show ?thesis by simp
  next
    case (Cons a u')
    with d_more.prems have "a = c" "w = u' @ v" by simp_all
    with Cons d_more.IH(1) have "denotes (after_char c r) u'" by simp
    with d_more.hyps(2) \<open>w = u' @ v\<close> show ?thesis
      by (auto intro: denotes.d_seq)
  qed
qed

lemma re_match_denotes: "re_match r w \<longleftrightarrow> denotes r w"
proof (induction w arbitrary: r)
  case Nil
  show ?case by (simp add: accepts_empty_denotes)
next
  case (Cons c w)
  then show ?case using after_char_sound after_char_complete by auto
qed

lemma star_class: "denotes (RStar (RClass rs)) w \<longleftrightarrow> all_in rs w"
proof
  assume "denotes (RStar (RClass rs)) w"
  then have "r = RStar (RClass rs) \<Longrightarrow> all_in rs w" for r
  proof (induction "RStar (RClass rs)" w rule: denotes.induct)
    case d_stop
    show ?case by (simp add: all_in_def)
  next
    case (d_more u v)
    from d_more(1) have "\<exists>c. u = [c] \<and> in_class c rs" by (auto elim: d_classE)
    with d_more show ?case by (auto simp: all_in_def)
  qed
  then show "all_in rs w" by simp
next
  show "all_in rs w \<Longrightarrow> denotes (RStar (RClass rs)) w"
  proof (induction w)
    case Nil
    show ?case by (rule d_stop)
  next
    case (Cons c w)
    then have "in_class c rs" "denotes (RStar (RClass rs)) w" by (simp_all add: all_in_def)
    from d_more [OF d_class [OF this(1)] this(2)] show ?case by simp
  qed
qed

lemma plus_class: "denotes (plus (RClass rs)) w \<longleftrightarrow> w \<noteq> [] \<and> all_in rs w"
proof
  assume "denotes (plus (RClass rs)) w"
  then obtain u v where "w = u @ v" "denotes (RClass rs) u" "denotes (RStar (RClass rs)) v"
    unfolding plus_def by (auto elim: d_seqE)
  then show "w \<noteq> [] \<and> all_in rs w"
    by (auto simp: star_class all_in_def elim: d_classE)
next
  assume a: "w \<noteq> [] \<and> all_in rs w"
  then obtain c v where w: "w = c # v" by (cases w) auto
  with a have "in_class c rs" "all_in rs v" by (simp_all add: all_in_def)
  then have "denotes (RClass rs) [c]" "denotes (RStar (RClass rs)) v"
    by (simp_all add: d_class star_class)
  from d_seq [OF this] w show "denotes (plus (RClass rs)) w" by (simp add: plus_def)
qed

lemma lit_denotes: "denotes (lit c) w \<longleftrightarrow> w = [c]"
proof
  assume "denotes (lit c) w"
  then obtain c' where "w = [c']" "in_class c' [(c, c)]"
    unfolding lit_def by (auto elim!: d_classE)
  then have "(of_char c' :: nat) \<le> of_char c" "(of_char c :: nat) \<le> of_char c'"
    by (simp_all add: in_class_def)
  then have "(of_char c' :: nat) = of_char c" by (rule order_antisym)
  then have "c' = c" by (simp only: of_char_eq_iff)
  with \<open>w = [c']\<close> show "w = [c]" by simp
next
  assume "w = [c]"
  then show "denotes (lit c) w"
    unfolding lit_def by (auto simp: in_class_def intro!: d_class)
qed

lemma seq_denotes:
  "denotes (RSeq r s) w \<longleftrightarrow> (\<exists>u v. w = u @ v \<and> denotes r u \<and> denotes s v)"
  by (auto elim!: d_seqE intro: d_seq)

lemma email_regex_language:
  "re_match email_regex s \<longleftrightarrow>
   (\<exists>l d t. s = l @ ''@'' @ d @ ''.'' @ t \<and> l \<noteq> [] \<and> d \<noteq> [] \<and> t \<noteq> []
      \<and> all_in [(CHR ''a'', CHR ''z''), (CHR ''A'', CHR ''Z''), (CHR ''0'', CHR ''9''),
                 (CHR ''_'', CHR ''_''), (CHR ''.'', CHR ''.''), (CHR ''+'', CHR ''+''),
                 (CHR ''-'', CHR ''-'')] l
      \<and> all_in [(CHR ''a'', CHR ''z''), (CHR ''A'', CHR ''Z''), (CHR ''0'', CHR ''9''),
                 (CHR ''-'', CHR ''-'')] d
      \<and> all_in [(CHR ''a'', CHR ''z''), (CHR ''A'', CHR ''Z''), (CHR ''0'', CHR ''9''),
                 (CHR ''-'', CHR ''-''), (CHR ''.'', CHR ''.'')] t)"
  unfolding re_match_denotes email_regex_def seq_denotes plus_class lit_denotes
  by (simp; blast)

subsection \<open>Validation of a schema, field by field\<close>

lemmas schema_defs = UserCreate_fields_def UserUpdate_fields_def ExpertCreate_fields_def
  ExpertUpdate_fields_def SaleCreate_fields_def OperationalCostCreate_fields_def
  OperationalCostUpdate_fields_def

lemmas table_defs = User_fields_def Expert_fields_def Sale_fields_def
  OperationalCost_fields_def FinancialReport_fields_def

lemmas str_defs = check_str_def too_short_def too_long_def

lemmas dec_defs = check_decimal_def normalize_dec_def round_to_prec_def round_half_even_def
  context_prec_def digit_info_def over_digits_def
  over_places_def over_whole_def

lemmas eval_defs = validate_def check_field_def check_value_def check_enum_def enum_of_value_def
  str_defs dec_defs strip_zeros.simps num_digits.simps fld_def opt_def
  email_regex_def plus_def lit_def in_class_def

lemma validate_fields_errs:
  "(n, e) \<in> set (fst (validate_fields now fs p)) \<longleftrightarrow>
   (\<exists>f \<in> set fs. fname f = n \<and> check_field now f (p n) = Inl e)"
  by (induction fs) (auto split: prod.splits sum.splits)

lemma validate_fields_vals:
  "(n, v) \<in> set (snd (validate_fields now fs p)) \<longleftrightarrow>
   (\<exists>f \<in> set fs. fname f = n \<and> check_field now f (p n) = Inr v)"
  by (induction fs) (auto split: prod.splits sum.splits)

lemma validate_fields_names:
  "map fst (snd (validate_fields now fs p)) =
   map fname (filter (\<lambda>f. isl (check_field now f (p (fname f))) = False) fs)"
  by (induction fs) (auto split: prod.splits sum.splits)

lemma validate_accepts_field:
  assumes "validate now fs p = Inr m" and "f \<in> set fs"
  shows "\<exists>v. check_field now f (p (fname f)) = Inr v"
proof (cases "check_field now f (p (fname f))")
  case (Inl e)
  with assms(2) have "(fname f, e) \<in> set (fst (validate_fields now fs p))"
    unfolding validate_fields_errs by blast
  with assms(1) show ?thesis
    by (auto simp: validate_def split: prod.splits list.splits)
next
  case (Inr v)
  then show ?thesis by blast
qed

lemma validate_rejects_field:
  assumes "f \<in> set fs" and "check_field now f (p (fname f)) = Inl e"
  shows "\<exists>es. validate now fs p = Inl (ValidationError es) \<and> (fname f, e) \<in> set es"
proof -
  from assms have "(fname f, e) \<in> set (fst (validate_fields now fs p))"
    unfolding validate_fields_errs by blast
  then show ?thesis
    by (auto simp: validate_def split: prod.splits list.splits)
qed

lemma validate_value:
  assumes "validate now fs p = Inr m" and "f \<in> set fs" and "distinct (map fname fs)"
    and "check_field now f (p (fname f)) = Inr v"
  shows "m (fname f) = Some v"
proof -
  from assms(1) obtain vs where vs: "validate_fields now fs p = ([], vs)" and m: "m = map_of vs"
    by (auto simp: validate_def split: prod.splits list.splits)
  have "distinct (map fst vs)"
    using validate_fields_names [of now fs p] assms(3) vs
    by (simp add: distinct_map_filter)
  moreover have "(fname f, v) \<in> set vs"
    using validate_fields_vals [of "fname f" v now fs p] assms(2,4) vs by auto
  ultimately show ?thesis
    unfolding m by simp
qed

lemma validate_all_accepted:
  assumes "\<And>f. f \<in> set fs \<Longrightarrow> \<exists>v. check_field now f (p (fname f)) = Inr v"
  shows "\<exists>m. validate now fs p = Inr m"
proof -
  have "fst (validate_fields now fs p) = []"
  proof (cases "fst (validate_fields now fs p)")
    case Nil
    then show ?thesis .
  next
    case (Cons ne es)
    then have "(fst ne, snd ne) \<in> set (fst (validate_fields now fs p))" by simp
    then obtain f where "f \<in> set fs" "check_field now f (p (fname f)) = Inl (snd ne)"
      unfolding validate_fields_errs by auto
    with assms show ?thesis by fastforce
  qed
  then show ?thesis
    by (auto simp: validate_def split: prod.splits list.splits)
qed

lemma validate_outside:
  assumes "validate now fs p = Inr m" and "k \<notin> set (map fname fs)"
  shows "m k = None"
proof -
  from assms(1) obtain vs where vs: "validate_fields now fs p = ([], vs)" and m: "m = map_of vs"
    by (auto simp: validate_def split: prod.splits list.splits)
  have "set (map fst vs) \<subseteq> set (map fname fs)"
    using validate_fields_names [of now fs p] vs by auto
  with assms(2) have "k \<notin> fst ` set vs" by auto
  then show ?thesis unfolding m by (simp add: map_of_eq_None_iff)
qed

lemma validate_accepts_named:
  assumes "validate now fs p = Inr m" and "f \<in> set fs" and "fname f = n"
    and "distinct (map fname fs)"
  shows "\<exists>v. check_field now f (p n) = Inr v \<and> m n = Some v"
proof -
  from validate_accepts_field [OF assms(1,2)] assms(3)
  obtain v where v: "check_field now f (p n) = Inr v" by auto
  with validate_value [OF assms(1,2,4), of v] assms(3) show ?thesis by auto
qed

lemma validate_rejects_named:
  assumes "f \<in> set fs" and "fname f = n" and "check_field now f (p n) = Inl e"
  shows "\<exists>es. validate now fs p = Inl (ValidationError es) \<and> (n, e) \<in> set es"
  using validate_rejects_field [of f fs now p e] assms by auto

lemma check_field_str_accept:
  assumes "check_field now f ov = Inr v" and "ftype f = TStr" and "dflt f = Required"
    and "nullable f = False"
  shows "\<exists>s. ov = Some (VStr s) \<and> v = VStr s \<and> too_short f s = None \<and> too_long f s = None"
  using assms
  by (auto simp: check_field_def check_value_def check_str_def
           split: option.splits pyval.splits if_splits)

lemma check_field_str_reject:
  assumes "ftype f = TStr" and "dflt f = Required" and "nullable f = False"
    and "\<not> (\<exists>s. ov = Some (VStr s) \<and> too_short f s = None \<and> too_long f s = None)"
  shows "\<exists>e. check_field now f ov = Inl e"
proof (cases "check_field now f ov")
  case (Inl e)
  then show ?thesis by blast
next
  case (Inr v)
  from check_field_str_accept [OF Inr assms(1-3)] assms(4) show ?thesis by blast
qed

lemma field_of_mem:
  assumes "field_of fs k = Some f"
  shows "f \<in> set fs \<and> fname f = k"
  using assms unfolding field_of_def by (auto simp: find_Some_iff)

subsection \<open>Decimals within \<^verbatim>\<open>max_digits\<close> and \<^verbatim>\<open>decimal_places\<close>\<close>

lemma num_digits_pos: "0 < num_digits c"
  by (subst num_digits.simps) simp

lemma num_digits_bound: "c < 10 ^ num_digits c"
proof (induction c rule: num_digits.induct)
  case (1 n)
  show ?case
  proof (cases "n < 10")
    case True
    then show ?thesis by (subst num_digits.simps) simp
  next
    case False
    with 1 have "n div 10 < 10 ^ num_digits (n div 10)" by simp
    then have "n < 10 * 10 ^ num_digits (n div 10)" by (simp add: div_less_iff_less_mult)
    with False show ?thesis by (subst num_digits.simps) simp
  qed
qed

lemma dec_val_powi:
  "dec_val (Dec s c e) = (if s then - 1 else 1) * of_nat c * 10 powi e"
  by (simp add: power_int_def field_simps)

lemma strip_zeros_val:
  "strip_zeros c e = (c', e') \<Longrightarrow> dec_val (Dec s c e) = dec_val (Dec s c' e')"
proof (induction c e rule: strip_zeros.induct)
  case (1 c e)
  show ?case
  proof (cases "c \<noteq> 0 \<and> c mod 10 = 0")
    case True
    with "1.prems" have "strip_zeros (c div 10) (e + 1) = (c', e')"
      by (subst (asm) strip_zeros.simps) simp
    with 1 True have IH: "dec_val (Dec s (c div 10) (e + 1)) = dec_val (Dec s c' e')" by simp
    from True have c: "c = 10 * (c div 10)" by auto
    have "(of_nat c :: rat) * 10 powi e = of_nat (c div 10) * 10 powi (e + 1)"
      by (subst c) (simp add: power_int_add)
    then have "dec_val (Dec s c e) = dec_val (Dec s (c div 10) (e + 1))"
      unfolding dec_val_powi by (simp add: mult.assoc)
    with IH show ?thesis by (simp del: dec_val.simps)
  next
    case False
    with "1.prems" have "c' = c \<and> e' = e" by (subst (asm) strip_zeros.simps) auto
    then show ?thesis by (simp del: dec_val.simps)
  qed
qed

text \<open>A coefficient within the precision of the context is normalized without loss.\<close>

lemma normalize_dec_val:
  assumes "normalize_dec c e = (c', e')" and "num_digits c \<le> context_prec"
  shows "dec_val (Dec s c e) = dec_val (Dec s c' e')"
proof (cases "c = 0")
  case True
  with assms show ?thesis by (auto simp: normalize_dec_def)
next
  case False
  with assms have "strip_zeros c e = (c', e')"
    by (simp add: normalize_dec_def round_to_prec_def)
  then show ?thesis by (rule strip_zeros_val)
qed

lemma digit_info_bound:
  assumes "digit_info c e = (digits, decimals)" and "digits \<le> m" and "decimals \<le> p"
    and "digits - decimals \<le> m - p" and "p \<le> m"
  shows "\<exists>k::nat. k < 10 ^ m \<and> (of_nat c :: rat) * 10 powi e = of_nat k / 10 ^ p"
proof (cases "0 \<le> e")
  case True
  with assms(1) have d: "digits = num_digits c + nat e" "decimals = 0"
    by (auto simp: digit_info_def)
  let ?k = "c * 10 ^ nat e * 10 ^ p"
  have "c * 10 ^ nat e < 10 ^ num_digits c * 10 ^ nat e"
    using num_digits_bound [of c] by simp
  also have "\<dots> = 10 ^ digits" by (simp add: d power_add)
  also have "\<dots> \<le> (10::nat) ^ (m - p)" using assms(4) d by (intro power_increasing) auto
  finally have "?k < 10 ^ (m - p) * 10 ^ p" by simp
  also have "\<dots> = (10::nat) ^ m" using assms(5) by (simp flip: power_add)
  finally have "?k < 10 ^ m" .
  moreover have "(of_nat c :: rat) * 10 powi e = of_nat ?k / 10 ^ p"
    using True by (simp add: power_int_def)
  ultimately show ?thesis by blast
next
  case False
  define q where "q = nat (- e)"
  from False assms(1) have d: "digits = max (num_digits c) q" "decimals = q"
    by (auto simp: digit_info_def q_def)
  from d assms(3) have qp: "q \<le> p" by simp
  from d assms(4) have nd: "num_digits c \<le> m - p + q" by (auto simp: max_def split: if_splits)
  let ?k = "c * 10 ^ (p - q)"
  have "c < 10 ^ (m - p + q)"
    using num_digits_bound [of c] nd
    by (meson less_le_trans power_increasing one_le_numeral)
  then have "?k < 10 ^ (m - p + q) * 10 ^ (p - q)" by simp
  also have "\<dots> = (10::nat) ^ m" using assms(5) qp by (simp flip: power_add)
  finally have "?k < 10 ^ m" .
  moreover have "(of_nat c :: rat) * 10 powi e = of_nat ?k / 10 ^ p"
  proof -
    have e: "e = - int q" using False by (simp add: q_def)
    have "(10::rat) ^ p = 10 ^ (p - q) * 10 ^ q" using qp by (simp flip: power_add)
    then show ?thesis unfolding e by (simp add: power_int_minus field_simps)
  qed
  ultimately show ?thesis by blast
qed

lemma check_decimal_value:
  assumes "check_decimal f d = Inr v"
  shows "v = VDecimal d"
  using assms
  by (auto simp: check_decimal_def split: decimal.splits prod.splits option.splits)

text \<open>
  Within the precision of the context the two keywords say what they are meant to:
  an accepted decimal is a whole number of \<open>10\<^sup>-\<^sup>p\<close> below \<open>10\<^sup>m\<^sup>-\<^sup>p\<close> in absolute value.
\<close>

lemma check_decimal_fixed_point:
  assumes "check_decimal f d = Inr v" and "max_digits f = Some m" and "decimal_places f = Some p"
    and "p \<le> m" and "num_digits (dec_coeff d) \<le> context_prec"
  shows "v = VDecimal d \<and> (\<exists>k::int. \<bar>k\<bar> < 10 ^ m \<and> dec_val d = of_int k / 10 ^ p)"
proof (cases d)
  case DecNonFinite
  with assms(1) show ?thesis by (simp add: check_decimal_def)
next
  case (Dec s c e)
  obtain c' e' where n: "normalize_dec c e = (c', e')" by fastforce
  obtain digits decimals where di: "digit_info c' e' = (digits, decimals)" by fastforce
  from assms(1-3) Dec n di have v: "v = VDecimal d" and b: "digits \<le> m" "decimals \<le> p"
      "digits - decimals \<le> m - p"
    by (auto simp: check_decimal_def over_digits_def over_places_def over_whole_def
             split: if_splits)
  from digit_info_bound [OF di b assms(4)]
  obtain k :: nat where k: "k < 10 ^ m" "(of_nat c' :: rat) * 10 powi e' = of_nat k / 10 ^ p"
    by blast
  have "dec_val d = dec_val (Dec s c' e')"
    using normalize_dec_val [OF n, of s] assms(5) Dec by (simp del: dec_val.simps)
  then have val: "dec_val d = (if s then - 1 else 1) * (of_nat k / 10 ^ p)"
    unfolding dec_val_powi using k(2) by (simp add: mult.assoc)
  let ?k = "if s then - int k else int k"
  have "\<bar>?k\<bar> < 10 ^ m" using k(1) by (auto simp flip: of_nat_less_iff)
  moreover have "dec_val d = of_int ?k / 10 ^ p" using val by simp
  ultimately show ?thesis using v by blast
qed

subsection \<open>Exact decimal arithmetic\<close>











subsection \<open>Emails and passwords of \<^verbatim>\<open>UserCreate\<close>\<close>

text \<open>
  C2. The claim is what the declaration means and not what the program does.
  \<^verbatim>\<open>UserCreate.email\<close> declares the pattern, and validation never matches an email
  against it: the payload \<open>mallory\<close>, whose email \<^verbatim>\<open>alice.example.com\<close> does not match
  the pattern, is accepted and keeps that email, where the claim has it rejected with a
  \<^verbatim>\<open>ValidationError\<close> on the email field.
\<close>

theorem UserCreate_email_regex_not_enforced:
  "(\<exists>f. field_of UserCreate_fields ''email'' = Some f \<and> regex f = Some email_regex)
   \<and> \<not> py_match email_regex ''alice.example.com''
   \<and> (\<exists>m. validate now UserCreate_fields mallory = Inr m
        \<and> m ''email'' = Some (VStr ''alice.example.com''))"
proof (intro conjI)
  show "\<exists>f. field_of UserCreate_fields ''email'' = Some f \<and> regex f = Some email_regex"
    by (simp add: field_of_def UserCreate_fields_def fld_def)
  show "\<not> py_match email_regex ''alice.example.com''"
    by (simp add: py_match_def email_regex_def plus_def lit_def in_class_def)
  show "\<exists>m. validate now UserCreate_fields mallory = Inr m
        \<and> m ''email'' = Some (VStr ''alice.example.com'')"
    by (simp add: eval_defs UserCreate_fields_def mallory_def alice_def)
qed

text \<open>
  What the pattern matches: an address, also one followed by a line feed under the
  anchor \<^verbatim>\<open>$\<close> of Python.
\<close>

lemma py_match_email_examples:
  "py_match email_regex ''alice@example.com''"
  "py_match email_regex (''alice@example.com'' @ [CHR 0x0A])"
  "\<not> re_match email_regex (''alice@example.com'' @ [CHR 0x0A])"
  by (simp_all add: py_match_def email_regex_def plus_def lit_def in_class_def)

text \<open>
  C9. A \<^verbatim>\<open>UserCreate\<close> payload is accepted only if its password is a string of 8 to 100
  characters, and any other payload is rejected with a \<^verbatim>\<open>ValidationError\<close> that names
  the password field; \<^verbatim>\<open>User.password_hash\<close> declares no minimum length and takes even
  the empty string.
\<close>

theorem UserCreate_password_length:
  "(validate now UserCreate_fields p = Inr m \<longrightarrow>
      (\<exists>s. p ''password'' = Some (VStr s) \<and> 8 \<le> length s \<and> length s \<le> 100))
   \<and> (\<not> (\<exists>s. p ''password'' = Some (VStr s) \<and> 8 \<le> length s \<and> length s \<le> 100) \<longrightarrow>
      (\<exists>es c. validate now UserCreate_fields p = Inl (ValidationError es)
         \<and> (''password'', c) \<in> set es))
   \<and> (\<exists>f. field_of User_fields ''password_hash'' = Some f \<and> min_length f = None
        \<and> check_field now f (Some (VStr [])) = Inr (VStr []))"
proof (intro conjI impI)
  let ?f = "(fld ''password'' TStr)\<lparr>min_length := Some 8, max_length := Some 100\<rparr>"
  have mem: "?f \<in> set UserCreate_fields" by (simp add: UserCreate_fields_def)
  have nm: "fname ?f = ''password''" by (simp add: fld_def)
  have bounds: "too_short ?f s = None \<and> too_long ?f s = None
      \<longleftrightarrow> 8 \<le> length s \<and> length s \<le> 100" for s
    by (auto simp: str_defs fld_def)
  {
    assume acc: "validate now UserCreate_fields p = Inr m"
    from validate_accepts_field [OF acc mem] nm
    obtain v where v: "check_field now ?f (p ''password'') = Inr v" by auto
    from check_field_str_accept [OF v] bounds
    show "\<exists>s. p ''password'' = Some (VStr s) \<and> 8 \<le> length s \<and> length s \<le> 100"
      by (auto simp: fld_def)
  }
  {
    assume bad: "\<not> (\<exists>s. p ''password'' = Some (VStr s) \<and> 8 \<le> length s \<and> length s \<le> 100)"
    have "\<exists>e. check_field now ?f (p ''password'') = Inl e"
    proof (rule check_field_str_reject)
      show "\<not> (\<exists>s. p ''password'' = Some (VStr s) \<and> too_short ?f s = None
              \<and> too_long ?f s = None)"
        using bad bounds by blast
    qed (simp_all add: fld_def)
    then obtain e where "check_field now ?f (p ''password'') = Inl e" by auto
    from validate_rejects_named [where p = p, OF mem nm this]
    show "\<exists>es c. validate now UserCreate_fields p = Inl (ValidationError es)
         \<and> (''password'', c) \<in> set es"
      by auto
  }
  show "\<exists>f. field_of User_fields ''password_hash'' = Some f \<and> min_length f = None
        \<and> check_field now f (Some (VStr [])) = Inr (VStr [])"
    by (simp add: field_of_def User_fields_def check_field_def check_value_def str_defs
          fld_def opt_def)
qed

theorem UserCreate_password_length_witness:
  "(\<exists>m. validate 0 UserCreate_fields alice = Inr m)
   \<and> alice ''password'' = Some (VStr ''correct horse'')
   \<and> 8 \<le> length ''correct horse'' \<and> length ''correct horse'' \<le> 100
   \<and> (\<exists>es c. validate 0 UserCreate_fields short_password = Inl (ValidationError es)
        \<and> (''password'', c) \<in> set es)
   \<and> (\<exists>es c. validate 0 UserCreate_fields long_password = Inl (ValidationError es)
        \<and> (''password'', c) \<in> set es)"
proof -
  obtain m where acc: "validate 0 UserCreate_fields alice = Inr m"
    by (simp add: eval_defs UserCreate_fields_def alice_def)
  from UserCreate_password_length [of 0 alice m] acc
  have good: "\<exists>s. alice ''password'' = Some (VStr s) \<and> 8 \<le> length s \<and> length s \<le> 100"
    by blast
  have short: "\<not> (\<exists>s. short_password ''password'' = Some (VStr s) \<and> 8 \<le> length s
      \<and> length s \<le> 100)"
    by (simp add: short_password_def)
  have long: "\<not> (\<exists>s. long_password ''password'' = Some (VStr s) \<and> 8 \<le> length s
      \<and> length s \<le> 100)"
    by (simp add: long_password_def)
  from UserCreate_password_length [of 0 short_password m] short
  have r1: "\<exists>es c. validate 0 UserCreate_fields short_password = Inl (ValidationError es)
        \<and> (''password'', c) \<in> set es"
    by blast
  from UserCreate_password_length [of 0 long_password m] long
  have r2: "\<exists>es c. validate 0 UserCreate_fields long_password = Inl (ValidationError es)
        \<and> (''password'', c) \<in> set es"
    by blast
  from acc good r1 r2 show ?thesis by (auto simp: alice_def)
qed

subsection \<open>The schemas of an expert\<close>

lemma num_digits_long_split: "num_digits 625000000000000000000000000001 = 30"
  by (simp add: num_digits.simps)

text \<open>
  C6. The claim is what the declaration means and not what the program does in every
  case. \<^verbatim>\<open>ExpertCreate.revenue_split_percentage\<close> declares \<^verbatim>\<open>max_digits=5\<close> and
  \<^verbatim>\<open>decimal_places=2\<close>, and the digits are counted after a rounding to 28 significant
  digits: \<^verbatim>\<open>Decimal("62.5000000000000000000000000001")\<close>, of thirty digits and
  twenty-eight decimal places, strictly between 62.50 and 62.51, is accepted and kept as
  it is, where the claim has at most five digits, two of them decimal places.
\<close>

theorem revenue_split_digits_not_enforced:
  "(\<exists>f. field_of ExpertCreate_fields ''revenue_split_percentage'' = Some f
        \<and> max_digits f = Some 5 \<and> decimal_places f = Some 2)
   \<and> long_split = Dec False 625000000000000000000000000001 (- 28)
   \<and> num_digits (dec_coeff long_split) = 30
   \<and> of_int 6250 / 100 < dec_val long_split \<and> dec_val long_split < of_int 6251 / 100
   \<and> (\<exists>m. validate now ExpertCreate_fields split_long = Inr m
        \<and> m ''revenue_split_percentage'' = Some (VDecimal long_split))"
proof (intro conjI)
  show "\<exists>f. field_of ExpertCreate_fields ''revenue_split_percentage'' = Some f
        \<and> max_digits f = Some 5 \<and> decimal_places f = Some 2"
    by (simp add: field_of_def ExpertCreate_fields_def fld_def opt_def)
  show "long_split = Dec False 625000000000000000000000000001 (- 28)"
    by (simp add: long_split_def)
  show "num_digits (dec_coeff long_split) = 30"
    by (simp add: long_split_def num_digits_long_split)
  show "of_int 6250 / 100 < dec_val long_split" by (simp add: long_split_def)
  show "dec_val long_split < of_int 6251 / 100" by (simp add: long_split_def)
  show "\<exists>m. validate now ExpertCreate_fields split_long = Inr m
        \<and> m ''revenue_split_percentage'' = Some (VDecimal long_split)"
    by (simp add: eval_defs ExpertCreate_fields_def split_long_def long_split_def acme_def)
qed

text \<open>
  The rest of the claim holds. A payload that leaves the split out gets the default
  \<^verbatim>\<open>Decimal("50.0")\<close>, whose value is exactly 50.00; and a split whose coefficient is
  within the 28 digits of the context is accepted only if it is a whole number of
  hundredths below 1000 in absolute value: 123.45 is accepted, 123.456, 12.345 and
  1234.5 are not.
\<close>

lemma revenue_split_default:
  assumes "validate now ExpertCreate_fields p = Inr m"
    and "p ''revenue_split_percentage'' = None"
  shows "m ''revenue_split_percentage'' = Some (VDecimal (Dec False 500 (- 1)))
         \<and> dec_val (Dec False 500 (- 1)) = 50"
proof -
  let ?f = "(fld ''revenue_split_percentage'' TDecimal)
      \<lparr>dflt := Default (VDecimal (Dec False 500 (- 1))), max_digits := Some 5,
       decimal_places := Some 2\<rparr>"
  have mem: "?f \<in> set ExpertCreate_fields" by (simp add: ExpertCreate_fields_def)
  have nm: "fname ?f = ''revenue_split_percentage''" by (simp add: fld_def)
  have dist: "distinct (map fname ExpertCreate_fields)"
    by (simp add: ExpertCreate_fields_def fld_def opt_def)
  from validate_accepts_named [where p = p, OF assms(1) mem nm dist] assms(2)
  show ?thesis by (auto simp: check_field_def fld_def)
qed

lemma revenue_split_checked_within_precision:
  assumes "validate now ExpertCreate_fields p = Inr m"
    and "p ''revenue_split_percentage'' = Some (VDecimal d)"
    and "num_digits (dec_coeff d) \<le> context_prec"
  shows "m ''revenue_split_percentage'' = Some (VDecimal d)
         \<and> (\<exists>k::int. \<bar>k\<bar> < 100000 \<and> dec_val d = of_int k / 100)"
proof -
  let ?f = "(fld ''revenue_split_percentage'' TDecimal)
      \<lparr>dflt := Default (VDecimal (Dec False 500 (- 1))), max_digits := Some 5,
       decimal_places := Some 2\<rparr>"
  have mem: "?f \<in> set ExpertCreate_fields" by (simp add: ExpertCreate_fields_def)
  have ft: "fname ?f = ''revenue_split_percentage''" "ftype ?f = TDecimal"
    "max_digits ?f = Some 5" "decimal_places ?f = Some 2"
    by (simp_all add: fld_def)
  have dist: "distinct (map fname ExpertCreate_fields)"
    by (simp add: ExpertCreate_fields_def fld_def opt_def)
  from validate_accepts_named [where p = p, OF assms(1) mem ft(1) dist] assms(2)
  obtain v where v: "check_field now ?f (Some (VDecimal d)) = Inr v"
    and mv: "m ''revenue_split_percentage'' = Some v"
    by auto
  from v ft(2) have "check_decimal ?f d = Inr v"
    by (simp add: check_field_def check_value_def)
  from check_decimal_fixed_point [OF this ft(3,4) _ assms(3)] mv show ?thesis by simp
qed

lemma revenue_split_examples:
  "\<exists>m. validate now ExpertCreate_fields split_12345 = Inr m
      \<and> m ''revenue_split_percentage'' = Some (VDecimal (Dec False 12345 (- 2)))"
  "validate now ExpertCreate_fields
     (acme(''revenue_split_percentage'' \<mapsto> VDecimal (Dec False 123456 (- 3))))
   = Inl (ValidationError [(''revenue_split_percentage'', decimal_max_digits 5)])"
  "validate now ExpertCreate_fields
     (acme(''revenue_split_percentage'' \<mapsto> VDecimal (Dec False 12345 (- 3))))
   = Inl (ValidationError [(''revenue_split_percentage'', decimal_max_places 2)])"
  "validate now ExpertCreate_fields
     (acme(''revenue_split_percentage'' \<mapsto> VDecimal (Dec False 12345 (- 1))))
   = Inl (ValidationError [(''revenue_split_percentage'', decimal_whole_digits 3)])"
  by (simp_all add: eval_defs ExpertCreate_fields_def split_12345_def acme_def)

text \<open>
  C7. Validation of \<^verbatim>\<open>ExpertCreate\<close> and of \<^verbatim>\<open>ExpertUpdate\<close> makes no range check on
  \<^verbatim>\<open>revenue_split_percentage\<close>: a split of 150.00 and a split of -5.00 are both
  accepted by either schema.
\<close>

theorem revenue_split_not_range_checked:
  "(\<exists>m d. validate now ExpertCreate_fields split_150 = Inr m
       \<and> m ''revenue_split_percentage'' = Some (VDecimal d) \<and> 100 < dec_val d)
   \<and> (\<exists>m d. validate now ExpertCreate_fields split_negative = Inr m
       \<and> m ''revenue_split_percentage'' = Some (VDecimal d) \<and> dec_val d < 0)
   \<and> (\<exists>m d. validate now ExpertUpdate_fields patch_150 = Inr m
       \<and> m ''revenue_split_percentage'' = Some (VDecimal d) \<and> 100 < dec_val d)
   \<and> (\<exists>m d. validate now ExpertUpdate_fields patch_negative = Inr m
       \<and> m ''revenue_split_percentage'' = Some (VDecimal d) \<and> dec_val d < 0)"
proof (intro conjI)
  show "\<exists>m d. validate now ExpertCreate_fields split_150 = Inr m
       \<and> m ''revenue_split_percentage'' = Some (VDecimal d) \<and> 100 < dec_val d"
    by (simp add: eval_defs ExpertCreate_fields_def split_150_def acme_def)
  show "\<exists>m d. validate now ExpertCreate_fields split_negative = Inr m
       \<and> m ''revenue_split_percentage'' = Some (VDecimal d) \<and> dec_val d < 0"
    by (simp add: eval_defs ExpertCreate_fields_def split_negative_def acme_def)
  show "\<exists>m d. validate now ExpertUpdate_fields patch_150 = Inr m
       \<and> m ''revenue_split_percentage'' = Some (VDecimal d) \<and> 100 < dec_val d"
    by (simp add: eval_defs ExpertUpdate_fields_def patch_150_def)
  show "\<exists>m d. validate now ExpertUpdate_fields patch_negative = Inr m
       \<and> m ''revenue_split_percentage'' = Some (VDecimal d) \<and> dec_val d < 0"
    by (simp add: eval_defs ExpertUpdate_fields_def patch_negative_def)
qed

text \<open>
  C10. \<^verbatim>\<open>ExpertUpdate.email\<close> declares no pattern, unlike \<^verbatim>\<open>ExpertCreate.email\<close> and
  \<^verbatim>\<open>UserCreate.email\<close>: the string \<^verbatim>\<open>not-an-email\<close>, of at most 255 characters, does not
  match the email pattern, is accepted by \<^verbatim>\<open>ExpertUpdate\<close>, and satisfies the
  constraints of the column \<^verbatim>\<open>Expert.email\<close>, which declares no pattern either.
\<close>

theorem ExpertUpdate_email_has_no_regex:
  "length ''not-an-email'' \<le> 255
   \<and> \<not> py_match email_regex ''not-an-email''
   \<and> (\<exists>m. validate now ExpertUpdate_fields patch_email = Inr m
        \<and> m ''email'' = Some (VStr ''not-an-email''))
   \<and> (\<exists>f. field_of ExpertUpdate_fields ''email'' = Some f \<and> regex f = None)
   \<and> (\<exists>f. field_of ExpertCreate_fields ''email'' = Some f \<and> regex f = Some email_regex)
   \<and> (\<exists>f. field_of UserCreate_fields ''email'' = Some f \<and> regex f = Some email_regex)
   \<and> (\<exists>f. field_of Expert_fields ''email'' = Some f \<and> regex f = None
        \<and> check_field now f (Some (VStr ''not-an-email'')) = Inr (VStr ''not-an-email''))"
proof (intro conjI)
  show "length ''not-an-email'' \<le> 255" by simp
  show "\<not> py_match email_regex ''not-an-email''"
    by (simp add: py_match_def email_regex_def plus_def lit_def in_class_def)
  show "\<exists>m. validate now ExpertUpdate_fields patch_email = Inr m
        \<and> m ''email'' = Some (VStr ''not-an-email'')"
    by (simp add: eval_defs ExpertUpdate_fields_def patch_email_def)
  show "\<exists>f. field_of ExpertUpdate_fields ''email'' = Some f \<and> regex f = None"
    by (simp add: field_of_def ExpertUpdate_fields_def fld_def opt_def)
  show "\<exists>f. field_of ExpertCreate_fields ''email'' = Some f \<and> regex f = Some email_regex"
    by (simp add: field_of_def ExpertCreate_fields_def fld_def opt_def)
  show "\<exists>f. field_of UserCreate_fields ''email'' = Some f \<and> regex f = Some email_regex"
    by (simp add: field_of_def UserCreate_fields_def fld_def opt_def)
  show "\<exists>f. field_of Expert_fields ''email'' = Some f \<and> regex f = None
        \<and> check_field now f (Some (VStr ''not-an-email'')) = Inr (VStr ''not-an-email'')"
    by (simp add: field_of_def Expert_fields_def check_field_def check_value_def str_defs
          fld_def opt_def)
qed

subsection \<open>Server-managed fields\<close>

text \<open>
  C8. None of the seven Create and Update schemas has a field named \<^verbatim>\<open>id\<close>,
  \<^verbatim>\<open>created_at\<close>, \<^verbatim>\<open>updated_at\<close>, \<^verbatim>\<open>og_share\<close>, \<^verbatim>\<open>expert_share\<close> or \<^verbatim>\<open>net_profit\<close>.
\<close>

theorem transfer_schemas_omit_server_fields:
  "set (map fname UserCreate_fields) \<inter>
     {''id'', ''created_at'', ''updated_at'', ''og_share'', ''expert_share'', ''net_profit''} = {}
   \<and> set (map fname UserUpdate_fields) \<inter>
     {''id'', ''created_at'', ''updated_at'', ''og_share'', ''expert_share'', ''net_profit''} = {}
   \<and> set (map fname ExpertCreate_fields) \<inter>
     {''id'', ''created_at'', ''updated_at'', ''og_share'', ''expert_share'', ''net_profit''} = {}
   \<and> set (map fname ExpertUpdate_fields) \<inter>
     {''id'', ''created_at'', ''updated_at'', ''og_share'', ''expert_share'', ''net_profit''} = {}
   \<and> set (map fname SaleCreate_fields) \<inter>
     {''id'', ''created_at'', ''updated_at'', ''og_share'', ''expert_share'', ''net_profit''} = {}
   \<and> set (map fname OperationalCostCreate_fields) \<inter>
     {''id'', ''created_at'', ''updated_at'', ''og_share'', ''expert_share'', ''net_profit''} = {}
   \<and> set (map fname OperationalCostUpdate_fields) \<inter>
     {''id'', ''created_at'', ''updated_at'', ''og_share'', ''expert_share'', ''net_profit''} = {}"
  by (simp add: schema_defs fld_def opt_def)

subsection \<open>Uniqueness in the storage engine\<close>

lemma db1_users: "db1 ''users'' = [alice_row(''id'' \<mapsto> VInt 1)]"
  by (simp add: db1_def create_user_def create_expert_def insert_row_def unique_violation_def
        foreign_key_violation_def holds_def next_id_def empty_db_def
        User_fields_def Expert_fields_def fld_def opt_def alice_row_def acme_row_def Let_def)

lemma db1_experts: "db1 ''experts'' = [acme_row(''id'' \<mapsto> VInt 1)]"
  by (simp add: db1_def create_user_def create_expert_def insert_row_def unique_violation_def
        foreign_key_violation_def holds_def next_id_def empty_db_def
        User_fields_def Expert_fields_def fld_def opt_def alice_row_def acme_row_def Let_def)

text \<open>
  The engine takes a user with a new email, an expert with a new subdomain (the email
  of an expert is not unique) or with none, and refuses a creator that does not exist.
\<close>

lemmas store_defs = create_user_def create_expert_def insert_row_def unique_violation_def
  foreign_key_violation_def holds_def next_id_def User_fields_def Expert_fields_def
  fld_def opt_def Let_def

lemma storage_accepts_fresh_rows:
  "create_user (alice_again(''email'' \<mapsto> VStr ''bob@example.com'')) db1 =
     (Inr (alice_again(''email'' \<mapsto> VStr ''bob@example.com'', ''id'' \<mapsto> VInt 2)),
      db1(''users'' := db1 ''users'' @
        [alice_again(''email'' \<mapsto> VStr ''bob@example.com'', ''id'' \<mapsto> VInt 2)]))"
  "\<not> isl (fst (create_expert (acme_again(''subdomain'' \<mapsto> VStr ''acme-two'',
       ''email'' \<mapsto> VStr ''ann@acme.io'')) db1))"
  "\<not> isl (fst (create_expert (acme_again(''subdomain'' \<mapsto> VNone)) db1))"
  "fst (create_expert (acme_again(''subdomain'' \<mapsto> VNone, ''created_by_id'' \<mapsto> VInt 9)) db1) =
     Inl (ReferentialIntegrityError ''created_by_id'')"
  by (simp_all add: store_defs db1_users db1_experts alice_again_def acme_again_def
        alice_row_def acme_row_def)

text \<open>
  C3. In any database that holds a user with a given email, creating a user with that
  email fails with \<^verbatim>\<open>UniquenessConflict\<close> on the email and leaves the database as it
  was; likewise for an expert and a subdomain other than \<^verbatim>\<open>None\<close>.
\<close>

theorem unique_email_and_subdomain:
  "(holds (d ''users'') ''email'' v \<and> v \<noteq> VNone \<and> r ''email'' = Some v \<longrightarrow>
      create_user r d = (Inl (UniquenessConflict ''email''), d))
   \<and> (holds (d ''experts'') ''subdomain'' v \<and> v \<noteq> VNone \<and> r ''subdomain'' = Some v \<longrightarrow>
      create_expert r d = (Inl (UniquenessConflict ''subdomain''), d))"
  by (simp add: create_user_def create_expert_def insert_row_def unique_violation_def
        User_fields_def Expert_fields_def fld_def opt_def)

theorem unique_email_and_subdomain_witness:
  "holds (db1 ''users'') ''email'' (VStr ''alice@example.com'')
   \<and> alice_again ''email'' = Some (VStr ''alice@example.com'')
   \<and> create_user alice_again db1 = (Inl (UniquenessConflict ''email''), db1)
   \<and> holds (db1 ''experts'') ''subdomain'' (VStr ''acme'')
   \<and> acme_again ''subdomain'' = Some (VStr ''acme'')
   \<and> create_expert acme_again db1 = (Inl (UniquenessConflict ''subdomain''), db1)"
proof -
  have u: "holds (db1 ''users'') ''email'' (VStr ''alice@example.com'')"
    by (simp add: db1_users holds_def alice_row_def)
  have ur: "alice_again ''email'' = Some (VStr ''alice@example.com'')"
    by (simp add: alice_again_def)
  have e: "holds (db1 ''experts'') ''subdomain'' (VStr ''acme'')"
    by (simp add: db1_experts holds_def acme_row_def)
  have er: "acme_again ''subdomain'' = Some (VStr ''acme'')"
    by (simp add: acme_again_def)
  from unique_email_and_subdomain [of db1 "VStr ''alice@example.com''" alice_again] u ur
  have c1: "create_user alice_again db1 = (Inl (UniquenessConflict ''email''), db1)"
    by simp
  from unique_email_and_subdomain [of db1 "VStr ''acme''" acme_again] e er
  have c2: "create_expert acme_again db1 = (Inl (UniquenessConflict ''subdomain''), db1)"
    by simp
  from u ur c1 e er c2 show ?thesis by blast
qed

subsection \<open>Patching an operational cost\<close>

text \<open>
  C4. Applying a valid \<^verbatim>\<open>OperationalCostUpdate\<close> in which only the amount is set gives
  the cost the validated amount of the patch (the very decimal supplied) and leaves
  every other field of the row as it was.
\<close>

theorem amount_only_patch:
  assumes "validate now OperationalCostUpdate_fields p = Inr m"
    and "fields_set OperationalCostUpdate_fields p = [''amount'']"
  shows "\<exists>r'. apply_update now OperationalCostUpdate_fields p r = Inr r'
           \<and> r' ''amount'' = m ''amount''
           \<and> (\<forall>d. p ''amount'' = Some (VDecimal d) \<longrightarrow> r' ''amount'' = Some (VDecimal d))
           \<and> (\<forall>k. k \<noteq> ''amount'' \<longrightarrow> r' k = r k)"
proof -
  let ?f = "(opt ''amount'' TDecimal)\<lparr>max_digits := Some 12, decimal_places := Some 2\<rparr>"
  let ?r = "\<lambda>k. if k \<in> set (fields_set OperationalCostUpdate_fields p) then m k else r k"
  have mem: "?f \<in> set OperationalCostUpdate_fields" by (simp add: OperationalCostUpdate_fields_def)
  have ft: "fname ?f = ''amount''" "ftype ?f = TDecimal" "max_digits ?f = Some 12"
    "decimal_places ?f = Some 2"
    by (simp_all add: fld_def opt_def)
  have dist: "distinct (map fname OperationalCostUpdate_fields)"
    by (simp add: OperationalCostUpdate_fields_def fld_def opt_def)
  from validate_accepts_named [where p = p, OF assms(1) mem ft(1) dist]
  obtain v where v: "check_field now ?f (p ''amount'') = Inr v" and mv: "m ''amount'' = Some v"
    by auto
  have app: "apply_update now OperationalCostUpdate_fields p r = Inr ?r"
    using assms(1) by (simp add: apply_update_def)
  have am: "?r ''amount'' = m ''amount''" using assms(2) by simp
  have dec: "?r ''amount'' = Some (VDecimal d)" if "p ''amount'' = Some (VDecimal d)" for d
  proof -
    from v that ft(2) have "check_decimal ?f d = Inr v"
      by (simp add: check_field_def check_value_def)
    from check_decimal_value [OF this] have "v = VDecimal d" .
    with am mv show ?thesis by simp
  qed
  have other: "?r k = r k" if "k \<noteq> ''amount''" for k
    using assms(2) that by simp
  from app am dec other show ?thesis by blast
qed

theorem amount_only_patch_witness:
  "(\<exists>m. validate 0 OperationalCostUpdate_fields patch_amount = Inr m)
   \<and> fields_set OperationalCostUpdate_fields patch_amount = [''amount'']
   \<and> (\<exists>r'. apply_update 0 OperationalCostUpdate_fields patch_amount hosting_cost = Inr r'
         \<and> r' ''amount'' = Some (VDecimal (Dec False 25050 (- 2)))
         \<and> r' ''description'' = Some (VStr ''Hosting'')
         \<and> r' ''category'' = Some (VEnum (CostCategory TECHNOLOGY))
         \<and> r' ''notes'' = Some VNone)"
proof -
  obtain m where acc: "validate 0 OperationalCostUpdate_fields patch_amount = Inr m"
    by (simp add: eval_defs OperationalCostUpdate_fields_def patch_amount_def)
  have only: "fields_set OperationalCostUpdate_fields patch_amount = [''amount'']"
    by (simp add: fields_set_def OperationalCostUpdate_fields_def patch_amount_def
          fld_def opt_def)
  have set: "patch_amount ''amount'' = Some (VDecimal (Dec False 25050 (- 2)))"
    by (simp add: patch_amount_def)
  from amount_only_patch [OF acc only, of hosting_cost] set
  obtain r' where r': "apply_update 0 OperationalCostUpdate_fields patch_amount hosting_cost = Inr r'"
    "r' ''amount'' = Some (VDecimal (Dec False 25050 (- 2)))"
    "\<forall>k. k \<noteq> ''amount'' \<longrightarrow> r' k = hosting_cost k"
    by blast
  from r'(3) have "r' ''description'' = hosting_cost ''description''"
    "r' ''category'' = hosting_cost ''category''" "r' ''notes'' = hosting_cost ''notes''"
    by simp_all
  then have "r' ''description'' = Some (VStr ''Hosting'')"
    "r' ''category'' = Some (VEnum (CostCategory TECHNOLOGY))" "r' ''notes'' = Some VNone"
    by (simp_all add: hosting_cost_def)
  with acc only r'(1,2) show ?thesis by blast
qed

subsection \<open>The amounts of a financial report\<close>



end
